theory Spec2Isabelle
  imports Complex_Main "HOL-Library.Multiset"
begin

section \<open>Conventions of the embedding\<close>


section \<open>The query (both scripts)\<close>

text \<open>
  \<^verbatim>\<open>query = "SELECT * FROM oecd_hw_change"\<close> and \<^verbatim>\<open>df = pd.read_sql(query, engine)\<close>,
  in both scripts. The engine is built from the credentials typed at run time; the
  database answers a query string with a table.
\<close>

definition query_barchart :: string where
  "query_barchart = ''SELECT * FROM oecd_hw_change''"

definition query_map :: string where
  "query_map = ''SELECT * FROM oecd_hw_change''"

text \<open>What a script sends to the database: \<open>read_sql\<close> is the database client, taken as
  a parameter together with the engine made from the run-time credentials.\<close>

definition load_barchart :: "(string \<Rightarrow> 'e \<Rightarrow> 't) \<Rightarrow> 'e \<Rightarrow> 't" where
  "load_barchart read_sql engine = read_sql query_barchart engine"

definition load_map :: "(string \<Rightarrow> 'e \<Rightarrow> 't) \<Rightarrow> 'e \<Rightarrow> 't" where
  "load_map read_sql engine = read_sql query_map engine"

section \<open>Binning the percentage change (map script)\<close>














section \<open>The bar chart script\<close>

text \<open>
  The rows of \<open>oecd_hw_change\<close>, with the columns the two scripts read. The key column
  \<open>country\<close> is a string; the three float columns are nullable.
\<close>

record wage_row =
  country :: string
  hw_2007 :: "real option"
  hw_2024 :: "real option"
  pct_change_2007_2024 :: "real option"

text \<open>\<^verbatim>\<open>not_in_usd = ['Bulgaria', 'Romania', 'Croatia']\<close>,
  \<^verbatim>\<open>df = df[~df['country'].isin(not_in_usd)].copy()\<close>,
  \<^verbatim>\<open>df = df.replace("OECD", "OECD average")\<close>. \<open>DataFrame.replace\<close> rewrites every cell
  equal to the given string; a float cell never is.\<close>

definition not_in_usd :: "string list" where
  "not_in_usd = [''Bulgaria'', ''Romania'', ''Croatia'']"

definition isin :: "'a \<Rightarrow> 'a list \<Rightarrow> bool" where
  "isin x xs = (x \<in> set xs)"

definition replace_df :: "string \<Rightarrow> string \<Rightarrow> wage_row list \<Rightarrow> wage_row list" where
  "replace_df to_replace val df =
     map (\<lambda>r. r\<lparr>country := (if country r = to_replace then val else country r)\<rparr>) df"

definition prepare :: "wage_row list \<Rightarrow> wage_row list" where
  "prepare df =
     replace_df ''OECD'' ''OECD average'' (filter (\<lambda>r. \<not> isin (country r) not_in_usd) df)"

text \<open>
  \<open>DataFrame.sort_values(by)\<close> on one float column, ascending, \<open>na_position='last'\<close>:
  the rows with a value are ordered by it and the rows with NaN follow in their original
  order. The order among equal values is the stable one here; pandas' default sort kind
  leaves it open, and no statement below depends on it.
\<close>

definition sort_values :: "('r \<Rightarrow> real option) \<Rightarrow> 'r list \<Rightarrow> 'r list" where
  "sort_values by df =
     sort_key (\<lambda>r. the (by r)) (filter (\<lambda>r. by r \<noteq> None) df) @ filter (\<lambda>r. by r = None) df"


definition df_2007_sorted :: "wage_row list \<Rightarrow> wage_row list" where
  "df_2007_sorted df = sort_values hw_2007 (prepare df)"

definition df_2024_sorted :: "wage_row list \<Rightarrow> wage_row list" where
  "df_2024_sorted df = sort_values hw_2024 (prepare df)"












section \<open>The map script\<close>

text \<open>
  A geometry is the set of points it covers, over any type \<open>'p\<close> of points. The rows
  of the Natural Earth layers carry the columns the script reads: \<open>NAME\<close>,
  \<open>CONTINENT\<close> and \<open>geometry\<close> for the countries, \<open>NAME\<close> and \<open>geometry\<close> for the
  disputed areas, \<open>name_en\<close> and the geometry for the administrative divisions. The
  merged table \<open>df_mrg\<close> has the two wage columns next to \<open>NAME\<close> and \<open>geometry\<close>;
  its \<open>country\<close> cell is null on a row without wage data.
\<close>

record 'p geo_row =
  NAME :: string
  geometry :: "'p set"

record 'p world_row = "'p geo_row" +
  CONTINENT :: string

record 'p admin1_row =
  name_en :: "string option"
  admin1_geometry :: "'p set"

record 'p mrg_row = "'p geo_row" +
  mrg_country :: "string option"
  mrg_pct_change_2007_2024 :: "real option"


text \<open>
  Shapely's \<open>union\<close>, \<open>difference\<close> and \<open>unary_union\<close> are the set operations. What
  depends on a metric, a measure or a projection is a parameter of the model, one field
  each: \<open>to_crs\<close> (from a source to a target reference system), \<open>buffer\<close>,
  \<open>explode\<close> (the parts of a multi-part geometry) and \<open>area\<close>.
\<close>

record ('p, 'c) geo_lib =
  to_crs :: "'c \<Rightarrow> 'c \<Rightarrow> 'p set \<Rightarrow> 'p set"
  buffer :: "'p set \<Rightarrow> real \<Rightarrow> 'p set"
  explode :: "'p set \<Rightarrow> 'p set list"
  area :: "'p set \<Rightarrow> real"

definition unary_union :: "'p set list \<Rightarrow> 'p set" where
  "unary_union gs = \<Union> (set gs)"

text \<open>
  The three uses of \<open>.loc\<close> on the rows with a given name:
  \<^verbatim>\<open>df.loc[df['NAME']==name, 'geometry']\<close> read, the same assigned one geometry, and
  the same assigned the result of \<open>.apply(f)\<close> on itself.
\<close>

definition loc_geometry :: "string \<Rightarrow> ('p, 'm) geo_row_scheme list \<Rightarrow> 'p set list" where
  "loc_geometry name df = map geometry (filter (\<lambda>r. NAME r = name) df)"

definition loc_assign ::
  "string \<Rightarrow> 'p set \<Rightarrow> ('p, 'm) geo_row_scheme list \<Rightarrow> ('p, 'm) geo_row_scheme list" where
  "loc_assign name g df = map (\<lambda>r. if NAME r = name then r\<lparr>geometry := g\<rparr> else r) df"

definition loc_apply ::
  "string \<Rightarrow> ('p set \<Rightarrow> 'p set) \<Rightarrow> ('p, 'm) geo_row_scheme list
     \<Rightarrow> ('p, 'm) geo_row_scheme list" where
  "loc_apply name f df =
     map (\<lambda>r. if NAME r = name then r\<lparr>geometry := f (geometry r)\<rparr> else r) df"

text \<open>
  \<^verbatim>\<open>south_cy = world.loc[world['NAME']=='Cyprus', 'geometry']\<close>,
  \<^verbatim>\<open>north_cy = disputed.loc[disputed['NAME']=='N. Cyprus', 'geometry']\<close>,
  \<^verbatim>\<open>north_cy = north_cy.to_crs(world.crs)\<close>,
  \<^verbatim>\<open>full_cy = unary_union(list(south_cy) + list(north_cy))\<close>,
  \<^verbatim>\<open>closed = full_cy.buffer(0.05, join_style=1)\<close>,
  \<^verbatim>\<open>full_cy = closed.buffer(-0.05, join_style=1)\<close>,
  \<^verbatim>\<open>world.loc[world['NAME']=='Cyprus', 'geometry'] = full_cy\<close>
\<close>

definition unite_cyprus ::
  "('p, 'c) geo_lib \<Rightarrow> 'c \<Rightarrow> 'c \<Rightarrow> 'p world_row list \<Rightarrow> 'p geo_row list
     \<Rightarrow> 'p world_row list" where
  "unite_cyprus L world_crs disputed_crs world disputed =
     (let south_cy = loc_geometry ''Cyprus'' world;
          north_cy = loc_geometry ''N. Cyprus'' disputed;
          north_cy = map (to_crs L disputed_crs world_crs) north_cy;
          full_cy = unary_union (south_cy @ north_cy);
          closed = buffer L full_cy 0.05;
          full_cy = buffer L closed (- 0.05)
      in loc_assign ''Cyprus'' full_cy world)"

text \<open>The European countries and six neighbours, then the columns \<open>NAME\<close> and
  \<open>geometry\<close> only.\<close>

definition europe_of :: "'p world_row list \<Rightarrow> 'p geo_row list" where
  "europe_of world =
     map (\<lambda>r. \<lparr>NAME = NAME r, geometry = geometry r\<rparr>)
       (filter (\<lambda>r. CONTINENT r = ''Europe'' \<or>
                  isin (NAME r) [''Turkey'', ''Georgia'', ''Armenia'', ''Azerbaijan'',
                                 ''Cyprus'', ''Kazakhstan''])
          world)"

text \<open>\<^verbatim>\<open>df = df[df["country"] != "OECD"].copy()\<close>\<close>

definition drop_oecd :: "wage_row list \<Rightarrow> wage_row list" where
  "drop_oecd df = filter (\<lambda>r. country r \<noteq> ''OECD'') df"

text \<open>
  \<^verbatim>\<open>pd.merge(df, europe, left_on='country', right_on='NAME', how='right')\<close> after
  \<^verbatim>\<open>df = df[['country', 'pct_change_2007_2024']]\<close>: the rows of \<open>europe\<close> in their
  order, each once per wage row of that country (in the order of \<open>df\<close>), or once with
  null wage cells when there is none.
\<close>

definition merge_right :: "wage_row list \<Rightarrow> 'p geo_row list \<Rightarrow> 'p mrg_row list" where
  "merge_right df europe =
     concat (map (\<lambda>e.
       case filter (\<lambda>w. country w = NAME e) df of
         [] \<Rightarrow> [\<lparr>NAME = NAME e, geometry = geometry e, mrg_country = None,
                 mrg_pct_change_2007_2024 = None\<rparr>]
       | ws \<Rightarrow> map (\<lambda>w. \<lparr>NAME = NAME e, geometry = geometry e,
                           mrg_country = Some (country w),
                           mrg_pct_change_2007_2024 = pct_change_2007_2024 w\<rparr>) ws)
       europe)"

text \<open>
  \<^verbatim>\<open>admin1['name_en'].str.contains('Crimea', case=False, na=False)\<close>: the pattern has
  no regular-expression operator, so it is a substring test; the case is folded on the
  ASCII letters.
\<close>

definition lower :: "char \<Rightarrow> char" where
  "lower c = (case map_of (zip ''ABCDEFGHIJKLMNOPQRSTUVWXYZ'' ''abcdefghijklmnopqrstuvwxyz'') c of
                None \<Rightarrow> c | Some d \<Rightarrow> d)"

fun find_sub :: "string \<Rightarrow> string \<Rightarrow> bool" where
  "find_sub pat [] = (pat = [])"
| "find_sub pat (c # cs) = (take (length pat) (c # cs) = pat \<or> find_sub pat cs)"

definition str_contains :: "string \<Rightarrow> bool \<Rightarrow> bool \<Rightarrow> string option \<Rightarrow> bool" where
  "str_contains pat case_sensitive na s =
     (case s of
        None \<Rightarrow> na
      | Some t \<Rightarrow> if case_sensitive then find_sub pat t
                  else find_sub (map lower pat) (map lower t))"

text \<open>
  \<^verbatim>\<open>crimea_raw = admin1.loc[mask, 'geometry'].union_all()\<close>, reprojected to the
  reference system of \<open>df_mrg\<close> (that of the countries layer) and passed through
  \<open>buffer(0)\<close>.
\<close>

definition crimea_of :: "('p, 'c) geo_lib \<Rightarrow> 'c \<Rightarrow> 'c \<Rightarrow> 'p admin1_row list \<Rightarrow> 'p set" where
  "crimea_of L admin1_crs mrg_crs admin1 =
     (let mask = (\<lambda>r. str_contains ''Crimea'' False False (name_en r));
          crimea_raw = unary_union (map admin1_geometry (filter mask admin1))
      in buffer L (to_crs L admin1_crs mrg_crs crimea_raw) 0)"

text \<open>
  \<^verbatim>\<open>df_mrg.loc[df_mrg['NAME']=='Russia', 'geometry'] = ... .apply(lambda g:
  g.difference(crimea).buffer(0))\<close>, then
  \<^verbatim>\<open>df_mrg.loc[df_mrg['NAME']=='Ukraine', 'geometry'] = ... .apply(lambda g:
  g.union(crimea))\<close>
\<close>

definition crimea_adjust ::
  "('p, 'c) geo_lib \<Rightarrow> 'p set \<Rightarrow> ('p, 'm) geo_row_scheme list \<Rightarrow> ('p, 'm) geo_row_scheme list" where
  "crimea_adjust L crimea df_mrg =
     (let df_mrg = loc_apply ''Russia'' (\<lambda>g. buffer L (g - crimea) 0) df_mrg
      in loc_apply ''Ukraine'' (\<lambda>g. g \<union> crimea) df_mrg)"

text \<open>
  \<^verbatim>\<open>russia_parts = df_mrg.loc[df_mrg['NAME']=='Russia', 'geometry'].explode(index_parts=False)\<close>,
  \<^verbatim>\<open>min_area = 0.10\<close>,
  \<^verbatim>\<open>large_parts = [part for part in russia_parts if part.area > min_area]\<close>,
  \<^verbatim>\<open>clean_russia = unary_union(large_parts)\<close>,
  \<^verbatim>\<open>df_mrg.loc[df_mrg['NAME']=='Russia', 'geometry'] = clean_russia\<close>
\<close>

definition min_area :: real where
  "min_area = 0.10"

definition clean_russia ::
  "('p, 'c) geo_lib \<Rightarrow> ('p, 'm) geo_row_scheme list \<Rightarrow> ('p, 'm) geo_row_scheme list" where
  "clean_russia L df_mrg =
     (let russia_parts = concat (map (explode L) (loc_geometry ''Russia'' df_mrg));
          large_parts = filter (\<lambda>part. area L part > min_area) russia_parts;
          clean_russia = unary_union large_parts
      in loc_assign ''Russia'' clean_russia df_mrg)"

text \<open>The three downloaded layers with their reference systems, and the script up to
  the binning.\<close>

record ('p, 'c) map_input =
  world :: "'p world_row list"
  world_crs :: 'c
  disputed :: "'p geo_row list"
  disputed_crs :: 'c
  admin1 :: "'p admin1_row list"
  admin1_crs :: 'c

definition df_mrg_of :: "('p, 'c) geo_lib \<Rightarrow> ('p, 'c) map_input \<Rightarrow> wage_row list \<Rightarrow> 'p mrg_row list" where
  "df_mrg_of L inp df =
     (let world1 = unite_cyprus L (world_crs inp) (disputed_crs inp) (world inp) (disputed inp);
          europe = europe_of world1;
          df = drop_oecd df;
          df_mrg = merge_right df europe;
          crimea = crimea_of L (admin1_crs inp) (world_crs inp) (admin1 inp);
          df_mrg = crimea_adjust L crimea df_mrg
      in clean_russia L df_mrg)"










text \<open>The merged table as it would be without any of the three geographic adjustments.\<close>

definition raw_merge :: "('p, 'c) map_input \<Rightarrow> wage_row list \<Rightarrow> 'p mrg_row list" where
  "raw_merge inp df = merge_right (drop_oecd df) (europe_of (world inp))"

text \<open>A small instance on points \<open>nat\<close>: Crimea is the point 3, the point 7 is a
  small island of Russia, the point 8 is northern Cyprus.\<close>

definition demo_lib :: "(nat, nat) geo_lib" where
  "demo_lib = \<lparr>to_crs = (\<lambda>src dst g. g), buffer = (\<lambda>g d. g),
               explode = (\<lambda>g. [g - {7}, g \<inter> {7}]),
               area = (\<lambda>g. if 7 \<in> g then 0.05 else 1)\<rparr>"

definition demo_input :: "(nat, nat) map_input" where
  "demo_input =
     \<lparr>world = [\<lparr>NAME = ''Russia'', geometry = {11, 2, 3, 7}, CONTINENT = ''Europe''\<rparr>,
               \<lparr>NAME = ''Ukraine'', geometry = {4}, CONTINENT = ''Europe''\<rparr>,
               \<lparr>NAME = ''France'', geometry = {5}, CONTINENT = ''Europe''\<rparr>,
               \<lparr>NAME = ''Cyprus'', geometry = {6}, CONTINENT = ''Asia''\<rparr>,
               \<lparr>NAME = ''Japan'', geometry = {9}, CONTINENT = ''Asia''\<rparr>],
      world_crs = 4326,
      disputed = [\<lparr>NAME = ''N. Cyprus'', geometry = {8}\<rparr>],
      disputed_crs = 4326,
      admin1 = [\<lparr>name_en = Some ''Bavaria'', admin1_geometry = {50}\<rparr>,
                \<lparr>name_en = Some ''Autonomous Republic of Crimea'', admin1_geometry = {3}\<rparr>,
                \<lparr>name_en = None, admin1_geometry = {51}\<rparr>],
      admin1_crs = 4326\<rparr>"

definition demo_wages :: "wage_row list" where
  "demo_wages =
     [\<lparr>country = ''France'', hw_2007 = Some 30, hw_2024 = Some 36, pct_change_2007_2024 = Some 20\<rparr>,
      \<lparr>country = ''OECD'', hw_2007 = Some 30, hw_2024 = Some 33, pct_change_2007_2024 = Some 10\<rparr>,
      \<lparr>country = ''Atlantis'', hw_2007 = Some 1, hw_2024 = Some 2, pct_change_2007_2024 = Some 100\<rparr>,
      \<lparr>country = ''Ukraine'', hw_2007 = None, hw_2024 = None, pct_change_2007_2024 = None\<rparr>]"

definition demo_mrg :: "nat mrg_row list" where
  "demo_mrg =
     [\<lparr>NAME = ''Russia'', geometry = {11, 2, 3, 7}, mrg_country = None,
        mrg_pct_change_2007_2024 = None\<rparr>,
      \<lparr>NAME = ''Ukraine'', geometry = {4}, mrg_country = Some ''Ukraine'',
        mrg_pct_change_2007_2024 = None\<rparr>,
      \<lparr>NAME = ''France'', geometry = {5}, mrg_country = Some ''France'',
        mrg_pct_change_2007_2024 = Some 20\<rparr>,
      \<lparr>NAME = ''Cyprus'', geometry = {6}, mrg_country = None,
        mrg_pct_change_2007_2024 = None\<rparr>]"

section \<open>Theorems\<close>







text \<open>
  C7. Both scripts send the same fixed text, \<open>SELECT * FROM oecd_hw_change\<close>, whatever
  the database client and the engine built from the run-time credentials are.
\<close>

theorem query_fixed:
  "query_barchart = ''SELECT * FROM oecd_hw_change''
   \<and> query_map = query_barchart
   \<and> load_barchart read_sql engine = read_sql ''SELECT * FROM oecd_hw_change'' engine
   \<and> load_map read_sql engine = read_sql ''SELECT * FROM oecd_hw_change'' engine"
  by (simp add: query_barchart_def query_map_def load_barchart_def load_map_def)

section \<open>Theorems about the bar chart script\<close>
























lemma prepare_unfold:
  "prepare df =
     map (\<lambda>r. r\<lparr>country := (if country r = ''OECD'' then ''OECD average'' else country r)\<rparr>)
       (filter (\<lambda>r. country r \<notin> {''Bulgaria'', ''Romania'', ''Croatia''}) df)"
  by (simp add: prepare_def replace_df_def isin_def not_in_usd_def)

text \<open>
  C9. The preparation of the bar chart keeps, in order, exactly the rows whose country is
  not Bulgaria, Romania or Croatia, and writes "OECD average" for the country "OECD"; the
  two wage columns of the kept rows are as loaded, a row of any other country passes
  through whole, and the two sorted frames are computed from the prepared table.
\<close>

theorem prepare_rows:
  "prepare df =
     map (\<lambda>r. r\<lparr>country := (if country r = ''OECD'' then ''OECD average'' else country r)\<rparr>)
       (filter (\<lambda>r. country r \<notin> {''Bulgaria'', ''Romania'', ''Croatia''}) df)
   \<and> map hw_2007 (prepare df) =
       map hw_2007 (filter (\<lambda>r. country r \<notin> {''Bulgaria'', ''Romania'', ''Croatia''}) df)
   \<and> map hw_2024 (prepare df) =
       map hw_2024 (filter (\<lambda>r. country r \<notin> {''Bulgaria'', ''Romania'', ''Croatia''}) df)
   \<and> (\<forall>r \<in> set (prepare df). country r \<notin> {''Bulgaria'', ''Romania'', ''Croatia'', ''OECD''})
   \<and> (\<forall>r \<in> set df. country r \<notin> {''Bulgaria'', ''Romania'', ''Croatia'', ''OECD''}
         \<longrightarrow> r \<in> set (prepare df))
   \<and> (\<forall>r \<in> set df. country r = ''OECD'' \<longrightarrow> r\<lparr>country := ''OECD average''\<rparr> \<in> set (prepare df))
   \<and> df_2007_sorted df = sort_values hw_2007 (prepare df)
   \<and> df_2024_sorted df = sort_values hw_2024 (prepare df)"
proof -
  let ?keep = "\<lambda>r. country r \<notin> {''Bulgaria'', ''Romania'', ''Croatia''}"
  let ?ren = "\<lambda>r. r\<lparr>country := (if country r = ''OECD'' then ''OECD average'' else country r)\<rparr>"
  have p: "prepare df = map ?ren (filter ?keep df)" by (rule prepare_unfold)
  have h7: "map hw_2007 (prepare df) = map hw_2007 (filter ?keep df)"
    unfolding p by simp
  have h24: "map hw_2024 (prepare df) = map hw_2024 (filter ?keep df)"
    unfolding p by simp
  have a: "\<forall>r \<in> set (prepare df). country r \<notin> {''Bulgaria'', ''Romania'', ''Croatia'', ''OECD''}"
    unfolding p by auto
  have b: "\<forall>r \<in> set df. country r \<notin> {''Bulgaria'', ''Romania'', ''Croatia'', ''OECD''}
         \<longrightarrow> r \<in> set (prepare df)"
  proof (intro ballI impI)
    fix r assume r: "r \<in> set df" "country r \<notin> {''Bulgaria'', ''Romania'', ''Croatia'', ''OECD''}"
    then have "r \<in> set (filter ?keep df)" by simp
    then have "?ren r \<in> set (prepare df)" unfolding p set_map by (rule imageI)
    moreover have "?ren r = r" using r(2) by simp
    ultimately show "r \<in> set (prepare df)" by simp
  qed
  have c: "\<forall>r \<in> set df. country r = ''OECD'' \<longrightarrow> r\<lparr>country := ''OECD average''\<rparr> \<in> set (prepare df)"
  proof (intro ballI impI)
    fix r assume r: "r \<in> set df" "country r = ''OECD''"
    then have "r \<in> set (filter ?keep df)" by simp
    then have "?ren r \<in> set (prepare df)" unfolding p set_map by (rule imageI)
    moreover have "?ren r = r\<lparr>country := ''OECD average''\<rparr>" using r(2) by simp
    ultimately show "r\<lparr>country := ''OECD average''\<rparr> \<in> set (prepare df)" by simp
  qed
  show ?thesis
    using p h7 h24 a b c by (simp only: df_2007_sorted_def df_2024_sorted_def simp_thms)
qed

text \<open>The preparation on a table with a Bulgarian row, the OECD row and a Norwegian row.\<close>

theorem prepare_rows_witness:
  "prepare [\<lparr>country = ''Bulgaria'', hw_2007 = Some 4, hw_2024 = Some 9, pct_change_2007_2024 = Some 125\<rparr>,
            \<lparr>country = ''OECD'', hw_2007 = Some 30, hw_2024 = Some 33, pct_change_2007_2024 = Some 10\<rparr>,
            \<lparr>country = ''Norway'', hw_2007 = Some 40, hw_2024 = Some 44, pct_change_2007_2024 = Some 10\<rparr>]
   = [\<lparr>country = ''OECD average'', hw_2007 = Some 30, hw_2024 = Some 33, pct_change_2007_2024 = Some 10\<rparr>,
      \<lparr>country = ''Norway'', hw_2007 = Some 40, hw_2024 = Some 44, pct_change_2007_2024 = Some 10\<rparr>]"
  using prepare_rows [of
     "[\<lparr>country = ''Bulgaria'', hw_2007 = Some 4, hw_2024 = Some 9, pct_change_2007_2024 = Some 125\<rparr>,
       \<lparr>country = ''OECD'', hw_2007 = Some 30, hw_2024 = Some 33, pct_change_2007_2024 = Some 10\<rparr>,
       \<lparr>country = ''Norway'', hw_2007 = Some 40, hw_2024 = Some 44, pct_change_2007_2024 = Some 10\<rparr>]"]
  by simp


















section \<open>Theorems about the map script\<close>

lemma list_all2_map_self:
  "(\<And>x. x \<in> set xs \<Longrightarrow> P (f x) x) \<Longrightarrow> list_all2 P (map f xs) xs"
  by (simp add: list_all2_map1 list_all2_same)

lemma loc_geometry_const:
  assumes "\<forall>r\<in>set df. NAME r = n \<longrightarrow> geometry r = g" "r0 \<in> set df" "NAME r0 = n"
  shows "set (loc_geometry n df) = {g}"
  using assms by (auto simp: loc_geometry_def)

lemma set_unary_union_filter:
  "unary_union (filter P gs) = \<Union> {p \<in> set gs. P p}"
  by (simp add: unary_union_def)


text \<open>
  C3. The island removal changes no column but \<open>geometry\<close> and no row but those of
  Russia. Where \<open>g\<close> is Russia's geometry before the step, Russia's geometry after it is
  the union of exactly the parts of \<open>g\<close> whose area is above 0.10.
\<close>

theorem island_removal:
  assumes "\<forall>r\<in>set df. NAME r = ''Russia'' \<longrightarrow> geometry r = g"
  shows "list_all2 (\<lambda>r' r.
            r' = r\<lparr>geometry := geometry r'\<rparr>
          \<and> (NAME r = ''Russia'' \<longrightarrow>
               geometry r' = \<Union> {p \<in> set (explode L g). area L p > 0.10})
          \<and> (NAME r \<noteq> ''Russia'' \<longrightarrow> r' = r))
         (clean_russia L df) df"
proof -
  let ?G = "unary_union (filter (\<lambda>part. area L part > min_area)
              (concat (map (explode L) (loc_geometry ''Russia'' df))))"
  have c: "clean_russia L df = map (\<lambda>r. if NAME r = ''Russia'' then r\<lparr>geometry := ?G\<rparr> else r) df"
    by (simp add: clean_russia_def loc_assign_def)
  show ?thesis
    unfolding c
  proof (rule list_all2_map_self)
    fix r assume r: "r \<in> set df"
    let ?r' = "if NAME r = ''Russia'' then r\<lparr>geometry := ?G\<rparr> else r"
    show "?r' = r\<lparr>geometry := geometry ?r'\<rparr>
          \<and> (NAME r = ''Russia'' \<longrightarrow>
               geometry ?r' = \<Union> {p \<in> set (explode L g). area L p > 0.10})
          \<and> (NAME r \<noteq> ''Russia'' \<longrightarrow> ?r' = r)"
    proof (cases "NAME r = ''Russia''")
      case True
      have "set (loc_geometry ''Russia'' df) = {g}"
        using assms r True by (rule loc_geometry_const)
      then have "set (concat (map (explode L) (loc_geometry ''Russia'' df))) = set (explode L g)"
        by simp
      then have "?G = \<Union> {p \<in> set (explode L g). area L p > 0.10}"
        by (simp only: set_unary_union_filter min_area_def)
      with True show ?thesis by simp
    next
      case False
      then show ?thesis by simp
    qed
  qed
qed


lemma europe_of_loc_assign: "europe_of (loc_assign n g w) = loc_assign n g (europe_of w)"
  by (induction w) (auto simp: europe_of_def loc_assign_def)

lemma merge_right_Cons:
  "merge_right df (e # eu) =
     (case filter (\<lambda>w. country w = NAME e) df of
         [] \<Rightarrow> [\<lparr>NAME = NAME e, geometry = geometry e, mrg_country = None,
                 mrg_pct_change_2007_2024 = None\<rparr>]
       | ws \<Rightarrow> map (\<lambda>w. \<lparr>NAME = NAME e, geometry = geometry e,
                           mrg_country = Some (country w),
                           mrg_pct_change_2007_2024 = pct_change_2007_2024 w\<rparr>) ws)
     @ merge_right df eu"
  by (simp add: merge_right_def)

lemma merge_right_Nil: "merge_right df [] = []"
  by (simp add: merge_right_def)

lemma loc_assign_append:
  "loc_assign n g (xs @ ys) = loc_assign n g xs @ loc_assign n g ys"
  by (simp add: loc_assign_def)

lemma merge_right_loc_assign:
  "merge_right df (loc_assign n g eu) = loc_assign n g (merge_right df eu)"
proof (induction eu)
  case Nil
  show ?case by (simp add: merge_right_Nil loc_assign_def)
next
  case (Cons e eu)
  have "loc_assign n g (e # eu) = (if NAME e = n then e\<lparr>geometry := g\<rparr> else e) # loc_assign n g eu"
    by (simp add: loc_assign_def)
  then show ?case
    by (simp add: merge_right_Cons loc_assign_append Cons.IH)
       (simp add: loc_assign_def split: list.splits)
qed

lemma df_mrg_of_map:
  "\<exists>h. df_mrg_of L inp df = map h (raw_merge inp df)
       \<and> (\<forall>r. h r = r\<lparr>geometry := geometry (h r)\<rparr>
              \<and> (NAME r \<notin> {''Cyprus'', ''Russia'', ''Ukraine''} \<longrightarrow> h r = r))"
proof -
  obtain cy where w1: "unite_cyprus L (world_crs inp) (disputed_crs inp) (world inp) (disputed inp)
      = loc_assign ''Cyprus'' cy (world inp)"
    by (simp add: unite_cyprus_def Let_def)
  define cr where "cr = crimea_of L (admin1_crs inp) (world_crs inp) (admin1 inp)"
  define d1 where "d1 = loc_assign ''Cyprus'' cy (raw_merge inp df)"
  define d2 where "d2 = crimea_adjust L cr d1"
  obtain ru where d3: "clean_russia L d2 = loc_assign ''Russia'' ru d2"
    by (simp add: clean_russia_def Let_def)
  have e: "df_mrg_of L inp df = clean_russia L d2"
    unfolding d2_def d1_def cr_def raw_merge_def
    by (simp add: df_mrg_of_def Let_def w1 europe_of_loc_assign merge_right_loc_assign)
  let ?h = "\<lambda>r.
     (let r1 = (if NAME r = ''Cyprus'' then r\<lparr>geometry := cy\<rparr> else r);
          r2 = (if NAME r1 = ''Russia'' then r1\<lparr>geometry := buffer L (geometry r1 - cr) 0\<rparr> else r1);
          r3 = (if NAME r2 = ''Ukraine'' then r2\<lparr>geometry := geometry r2 \<union> cr\<rparr> else r2)
      in if NAME r3 = ''Russia'' then r3\<lparr>geometry := ru\<rparr> else r3)"
  have "df_mrg_of L inp df = map ?h (raw_merge inp df)"
    unfolding e d3 unfolding d2_def d1_def
    by (simp add: crimea_adjust_def loc_apply_def loc_assign_def Let_def o_def)
  moreover have "\<forall>r. ?h r = r\<lparr>geometry := geometry (?h r)\<rparr>
              \<and> (NAME r \<notin> {''Cyprus'', ''Russia'', ''Ukraine''} \<longrightarrow> ?h r = r)"
    by (simp add: Let_def)
  ultimately show ?thesis by blast
qed

lemma in_merge_right:
  assumes "r \<in> set (merge_right df eu)"
  shows "(\<exists>e\<in>set eu. NAME e = NAME r \<and> geometry e = geometry r)
       \<and> (case mrg_country r of
            None \<Rightarrow> mrg_pct_change_2007_2024 r = None \<and> (\<forall>w\<in>set df. country w \<noteq> NAME r)
          | Some c \<Rightarrow> c = NAME r \<and>
              (\<exists>w\<in>set df. country w = c \<and> pct_change_2007_2024 w = mrg_pct_change_2007_2024 r))"
  using assms
proof (induction eu)
  case Nil
  then show ?case by (simp add: merge_right_Nil)
next
  case (Cons e eu)
  from Cons.prems consider
    (here) "r \<in> set (case filter (\<lambda>w. country w = NAME e) df of
         [] \<Rightarrow> [\<lparr>NAME = NAME e, geometry = geometry e, mrg_country = None,
                 mrg_pct_change_2007_2024 = None\<rparr>]
       | ws \<Rightarrow> map (\<lambda>w. \<lparr>NAME = NAME e, geometry = geometry e,
                           mrg_country = Some (country w),
                           mrg_pct_change_2007_2024 = pct_change_2007_2024 w\<rparr>) ws)"
    | (there) "r \<in> set (merge_right df eu)"
    by (auto simp: merge_right_Cons)
  then show ?case
  proof cases
    case here
    show ?thesis
    proof (cases "filter (\<lambda>w. country w = NAME e) df")
      case Nil
      with here have r: "r = \<lparr>NAME = NAME e, geometry = geometry e, mrg_country = None,
                 mrg_pct_change_2007_2024 = None\<rparr>" by simp
      from Nil have "\<forall>w\<in>set df. country w \<noteq> NAME e"
        by (simp add: filter_empty_conv)
      with r show ?thesis by simp
    next
      case (Cons w ws)
      with here obtain v where v: "v \<in> set (filter (\<lambda>w. country w = NAME e) df)"
        and r: "r = \<lparr>NAME = NAME e, geometry = geometry e, mrg_country = Some (country v),
                           mrg_pct_change_2007_2024 = pct_change_2007_2024 v\<rparr>"
        by auto
      from v have "v \<in> set df" "country v = NAME e" by simp_all
      with r show ?thesis by auto
    qed
  next
    case there
    with Cons.IH show ?thesis by auto
  qed
qed






text \<open>
  C10. Row by row, the table after the Cyprus merge, the Crimea transfer and the island
  removal has the names, the countries and the percentage changes of the table merged
  without them, and the same geometry on every row not named Cyprus, Russia or Ukraine.
  Every percentage change of the table is the one loaded for that country, and null on a
  row without a country.
\<close>

theorem adjustments_frame:
  "list_all2 (\<lambda>r' r.
       NAME r' = NAME r
     \<and> mrg_country r' = mrg_country r
     \<and> mrg_pct_change_2007_2024 r' = mrg_pct_change_2007_2024 r
     \<and> (NAME r \<notin> {''Cyprus'', ''Russia'', ''Ukraine''} \<longrightarrow> geometry r' = geometry r))
     (df_mrg_of L inp df) (raw_merge inp df)
   \<and> (\<forall>r \<in> set (df_mrg_of L inp df).
         case mrg_country r of
           None \<Rightarrow> mrg_pct_change_2007_2024 r = None
         | Some c \<Rightarrow> \<exists>w \<in> set df. country w = c
                       \<and> pct_change_2007_2024 w = mrg_pct_change_2007_2024 r)"
proof -
  obtain h where h: "df_mrg_of L inp df = map h (raw_merge inp df)"
    and hr: "\<And>r. h r = r\<lparr>geometry := geometry (h r)\<rparr>"
    and hg: "\<And>r. NAME r \<notin> {''Cyprus'', ''Russia'', ''Ukraine''} \<Longrightarrow> h r = r"
    using df_mrg_of_map [of L inp df] by blast
  have n: "NAME (h r) = NAME r" "mrg_country (h r) = mrg_country r"
    "mrg_pct_change_2007_2024 (h r) = mrg_pct_change_2007_2024 r" for r
    by (subst hr, simp)+
  have 1: "list_all2 (\<lambda>r' r.
       NAME r' = NAME r
     \<and> mrg_country r' = mrg_country r
     \<and> mrg_pct_change_2007_2024 r' = mrg_pct_change_2007_2024 r
     \<and> (NAME r \<notin> {''Cyprus'', ''Russia'', ''Ukraine''} \<longrightarrow> geometry r' = geometry r))
     (df_mrg_of L inp df) (raw_merge inp df)"
    unfolding h by (rule list_all2_map_self) (simp add: n hg)
  have 2: "case mrg_country r of
           None \<Rightarrow> mrg_pct_change_2007_2024 r = None
         | Some c \<Rightarrow> \<exists>w \<in> set df. country w = c
                       \<and> pct_change_2007_2024 w = mrg_pct_change_2007_2024 r"
    if "r \<in> set (df_mrg_of L inp df)" for r
  proof -
    from that obtain r0 where r0: "r0 \<in> set (raw_merge inp df)" and r: "r = h r0"
      unfolding h by auto
    from in_merge_right [OF r0 [unfolded raw_merge_def]]
    have "case mrg_country r0 of
            None \<Rightarrow> mrg_pct_change_2007_2024 r0 = None
          | Some c \<Rightarrow> \<exists>w\<in>set (drop_oecd df). country w = c
                \<and> pct_change_2007_2024 w = mrg_pct_change_2007_2024 r0"
      by (auto split: option.splits)
    then show ?thesis
      unfolding r n by (auto simp: drop_oecd_def split: option.splits)
  qed
  from 1 2 show ?thesis by blast
qed



subsection \<open>The small instance\<close>

lemma demo_raw: "raw_merge demo_input demo_wages = demo_mrg"
  by (simp add: raw_merge_def demo_input_def demo_wages_def demo_mrg_def merge_right_def
      drop_oecd_def europe_of_def isin_def)

lemma demo_crimea: "crimea_of demo_lib 4326 4326 (admin1 demo_input) = {3}"
  by (simp add: crimea_of_def demo_lib_def demo_input_def str_contains_def lower_def
      unary_union_def)


lemma demo_clean:
  "map geometry (clean_russia demo_lib (crimea_adjust demo_lib {3} demo_mrg))
     = [{11, 2}, {3, 4}, {5}, {6}]"
  by (simp add: clean_russia_def loc_assign_def loc_geometry_def unary_union_def min_area_def
      crimea_adjust_def loc_apply_def demo_lib_def demo_mrg_def insert_Diff_if del: set_filter)

lemma demo_df_mrg:
  "df_mrg_of demo_lib demo_input demo_wages =
     [\<lparr>NAME = ''Russia'', geometry = {11, 2}, mrg_country = None,
        mrg_pct_change_2007_2024 = None\<rparr>,
      \<lparr>NAME = ''Ukraine'', geometry = {3, 4}, mrg_country = Some ''Ukraine'',
        mrg_pct_change_2007_2024 = None\<rparr>,
      \<lparr>NAME = ''France'', geometry = {5}, mrg_country = Some ''France'',
        mrg_pct_change_2007_2024 = Some 20\<rparr>,
      \<lparr>NAME = ''Cyprus'', geometry = {8, 6}, mrg_country = None,
        mrg_pct_change_2007_2024 = None\<rparr>]"
  by (simp add: df_mrg_of_def Let_def unite_cyprus_def loc_assign_def loc_geometry_def
      unary_union_def europe_of_def isin_def drop_oecd_def merge_right_def
      crimea_of_def str_contains_def lower_def crimea_adjust_def loc_apply_def
      clean_russia_def min_area_def demo_lib_def demo_input_def demo_wages_def insert_Diff_if del: set_filter)




text \<open>The island removal on the small instance: the point 7 goes.\<close>

theorem island_removal_witness:
  "list_all2 (\<lambda>r' r.
            r' = r\<lparr>geometry := geometry r'\<rparr>
          \<and> (NAME r = ''Russia'' \<longrightarrow>
               geometry r' = \<Union> {p \<in> set (explode demo_lib {11, 2, 7}). area demo_lib p > 0.10})
          \<and> (NAME r \<noteq> ''Russia'' \<longrightarrow> r' = r))
         (clean_russia demo_lib (crimea_adjust demo_lib {3} demo_mrg))
         (crimea_adjust demo_lib {3} demo_mrg)
   \<and> map geometry (clean_russia demo_lib (crimea_adjust demo_lib {3} demo_mrg))
       = [{11, 2}, {3, 4}, {5}, {6}]"
proof -
  have h: "\<forall>r\<in>set (crimea_adjust demo_lib {3} demo_mrg).
             NAME r = ''Russia'' \<longrightarrow> geometry r = {11, 2, 7}"
    by (simp add: crimea_adjust_def loc_apply_def demo_lib_def demo_mrg_def insert_Diff_if)
  from island_removal [OF h] demo_clean show ?thesis by (intro conjI)
qed

text \<open>The whole pipeline on the small instance, against the plain merge.\<close>

theorem adjustments_frame_witness:
  "list_all2 (\<lambda>r' r.
       NAME r' = NAME r
     \<and> mrg_country r' = mrg_country r
     \<and> mrg_pct_change_2007_2024 r' = mrg_pct_change_2007_2024 r
     \<and> (NAME r \<notin> {''Cyprus'', ''Russia'', ''Ukraine''} \<longrightarrow> geometry r' = geometry r))
     (df_mrg_of demo_lib demo_input demo_wages) (raw_merge demo_input demo_wages)
   \<and> map geometry (raw_merge demo_input demo_wages) = [{11, 2, 3, 7}, {4}, {5}, {6}]
   \<and> map geometry (df_mrg_of demo_lib demo_input demo_wages) = [{11, 2}, {3, 4}, {5}, {8, 6}]
   \<and> map mrg_pct_change_2007_2024 (df_mrg_of demo_lib demo_input demo_wages)
       = [None, None, Some 20, None]"
proof -
  have g: "map geometry (raw_merge demo_input demo_wages) = [{11, 2, 3, 7}, {4}, {5}, {6}]"
    by (simp add: demo_raw demo_mrg_def)
  have g': "map geometry (df_mrg_of demo_lib demo_input demo_wages) = [{11, 2}, {3, 4}, {5}, {8, 6}]"
    by (simp add: demo_df_mrg)
  have p: "map mrg_pct_change_2007_2024 (df_mrg_of demo_lib demo_input demo_wages)
       = [None, None, Some 20, None]"
    by (simp add: demo_df_mrg)
  from adjustments_frame [of demo_lib demo_input demo_wages] g g' p
  show ?thesis by (intro conjI) blast+
qed


end
